theory Spec2Isabelle
  imports Main "HOL-Library.Word" "HOL-Library.Sublist" "HOL-Library.AList"
begin

section \<open>pack\_to\_single\_html.py: inlining local images as data URIs\<close>

text \<open>
  The program reads an HTML file, visits every \<open>img\<close> element, replaces local
  \<open>src\<close> and \<open>data-full\<close> references by \<open>data:\<close> URIs and writes the document
  back. The model below follows the source function by function. What the source takes
  from the operating system and from libraries (the file system, \<open>os.path\<close>,
  \<open>mimetypes\<close>, the HTML parser) is a record of functions, \<open>env\<close>; the theorems hold
  for every such record. \<open>base64.b64encode\<close> is written out, since one claim is about
  decoding its result.
\<close>

subsection \<open>Bytes and base64\<close>

type_synonym byte = "8 word"

definition b64_alphabet :: string where
  "b64_alphabet = ''ABCDEFGHIJKLMNOPQRSTUVWXYZabcdefghijklmnopqrstuvwxyz0123456789+/''"

definition b64_char :: "nat \<Rightarrow> char" where
  "b64_char n = b64_alphabet ! n"

text \<open>
  \<open>base64.b64encode\<close> (RFC 4648, standard alphabet, with padding): three bytes give
  four characters of six bits each; a last group of one or two bytes is filled with
  zero bits and padded with \<open>=\<close>. The shifts and masks of the library are written
  as \<open>div\<close> and \<open>mod\<close> on the bytes' values: \<open>a div 4\<close> is \<open>a >> 2\<close>,
  \<open>a mod 4 * 16\<close> is \<open>(a & 3) << 4\<close>, and so on.
\<close>

definition sextet0 :: "byte \<Rightarrow> nat" where
  "sextet0 a = unat a div 4"

definition sextet1 :: "byte \<Rightarrow> byte \<Rightarrow> nat" where
  "sextet1 a b = unat a mod 4 * 16 + unat b div 16"

definition sextet2 :: "byte \<Rightarrow> byte \<Rightarrow> nat" where
  "sextet2 b c = unat b mod 16 * 4 + unat c div 64"

definition sextet3 :: "byte \<Rightarrow> nat" where
  "sextet3 c = unat c mod 64"

fun b64encode :: "byte list \<Rightarrow> string" where
  "b64encode (a # b # c # rest) =
     [b64_char (sextet0 a), b64_char (sextet1 a b),
      b64_char (sextet2 b c), b64_char (sextet3 c)] @ b64encode rest"
| "b64encode [a, b] =
     [b64_char (sextet0 a), b64_char (sextet1 a b), b64_char (sextet2 b 0), CHR ''='']"
| "b64encode [a] =
     [b64_char (sextet0 a), b64_char (sextet1 a 0), CHR ''='', CHR ''='']"
| "b64encode [] = []"

text \<open>
  The decoder is not part of the program: it is the strict RFC 4648 decoder against
  which the round trip of the specification is stated. It reads four characters at a
  time, accepts padding only in the last group, and rejects every other text.
\<close>

fun index_of :: "'a \<Rightarrow> 'a list \<Rightarrow> nat option" where
  "index_of c [] = None"
| "index_of c (x # xs) = (if x = c then Some 0 else map_option Suc (index_of c xs))"

definition b64_index :: "char \<Rightarrow> nat option" where
  "b64_index c = index_of c b64_alphabet"

definition octet0 :: "nat \<Rightarrow> nat \<Rightarrow> byte" where
  "octet0 s0 s1 = of_nat (s0 * 4 + s1 div 16)"

definition octet1 :: "nat \<Rightarrow> nat \<Rightarrow> byte" where
  "octet1 s1 s2 = of_nat (s1 mod 16 * 16 + s2 div 4)"

definition octet2 :: "nat \<Rightarrow> nat \<Rightarrow> byte" where
  "octet2 s2 s3 = of_nat (s2 mod 4 * 64 + s3)"

fun b64decode :: "string \<Rightarrow> byte list option" where
  "b64decode (c0 # c1 # c2 # c3 # rest) =
     (case (b64_index c0, b64_index c1) of
        (Some s0, Some s1) \<Rightarrow>
          (if rest = [] \<and> c2 = CHR ''='' \<and> c3 = CHR ''='' then Some [octet0 s0 s1]
           else
             (case b64_index c2 of
                None \<Rightarrow> None
              | Some s2 \<Rightarrow>
                  (if rest = [] \<and> c3 = CHR ''='' then Some [octet0 s0 s1, octet1 s1 s2]
                   else
                     (case b64_index c3 of
                        None \<Rightarrow> None
                      | Some s3 \<Rightarrow>
                          map_option
                            (\<lambda>bs. [octet0 s0 s1, octet1 s1 s2, octet2 s2 s3] @ bs)
                            (b64decode rest)))))
      | _ \<Rightarrow> None)"
| "b64decode [] = Some []"
| "b64decode _ = None"

subsection \<open>The environment of a run\<close>

text \<open>
  Everything the program asks of the operating system and of its libraries:
  \<^item> \<open>path_exists\<close>, \<open>path_join\<close>, \<open>path_normpath\<close>, \<open>path_abspath\<close> and
    \<open>path_dirname\<close> are the functions of \<open>os.path\<close>;
  \<^item> \<open>guess_type\<close> is the first component of \<open>mimetypes.guess_type\<close>, \<open>None\<close>
    when the type is not recognised;
  \<^item> \<open>read_bytes\<close> is \<open>open(path, "rb")\<close> followed by \<open>read()\<close>: the bytes of the
    file, or \<open>Inl\<close> the text of the exception raised;
  \<^item> \<open>load_imgs\<close> is reading the input as text, parsing it and \<open>find_all("img")\<close>:
    the \<open>img\<close> elements of the document in document order, or \<open>Inl\<close> the exception
    raised by the read;
  \<^item> \<open>write_text\<close> is writing the serialised document: \<open>None\<close> when it succeeds,
    the exception otherwise.
  An element is the dictionary of its attributes, in the order of the dictionary.
\<close>

type_synonym element = "(string \<times> string) list"

record env =
  path_exists :: "string \<Rightarrow> bool"
  path_join :: "string \<Rightarrow> string \<Rightarrow> string"
  path_normpath :: "string \<Rightarrow> string"
  path_abspath :: "string \<Rightarrow> string"
  path_dirname :: "string \<Rightarrow> string"
  guess_type :: "string \<Rightarrow> string option"
  read_bytes :: "string \<Rightarrow> string + byte list"
  load_imgs :: "string \<Rightarrow> string + element list"
  write_text :: "string \<Rightarrow> string option"

subsection \<open>to\_data\_uri\<close>

text \<open>
  \<open>if not mime\<close> holds for \<open>None\<close> and for the empty string. The function raises
  when opening or reading the file raises; the result is then \<open>Inl\<close> the exception.
\<close>

definition to_data_uri :: "env \<Rightarrow> string \<Rightarrow> string + string" where
  "to_data_uri e path =
     (let mime = (case guess_type e path of
                    None \<Rightarrow> ''application/octet-stream''
                  | Some m \<Rightarrow> if m = [] then ''application/octet-stream'' else m)
      in case read_bytes e path of
           Inl exn \<Rightarrow> Inl exn
         | Inr b \<Rightarrow> Inr (''data:'' @ mime @ '';base64,'' @ b64encode b))"

subsection \<open>The loop over the img elements\<close>

text \<open>
  The state of the loop: the two counters (Python integers) and the lines printed so
  far. The element is passed and returned beside it.
\<close>

record state =
  changed :: int
  skipped :: int
  printed :: "string list"

text \<open>\<open>img.get("src", "")\<close> and \<open>img.get("data-full")\<close>.\<close>

definition get_src :: "element \<Rightarrow> string" where
  "get_src img = (case map_of img ''src'' of None \<Rightarrow> [] | Some v \<Rightarrow> v)"

definition get_data_full :: "element \<Rightarrow> string option" where
  "get_data_full img = map_of img ''data-full''"

text \<open>
  Lines 67 to 75 of the source, the end of the loop body: \<open>data-full\<close> is inlined
  when it is present, not empty, without one of the three prefixes, and names an
  existing path. A failure prints a warning; no counter is touched.
\<close>

definition data_full_step :: "env \<Rightarrow> string \<Rightarrow> element \<Rightarrow> state \<Rightarrow> element \<times> state" where
  "data_full_step e base_dir img st =
     (case get_data_full img of
        None \<Rightarrow> (img, st)
      | Some data_full \<Rightarrow>
          if data_full \<noteq> [] \<and>
             \<not> (prefix ''http://'' data_full \<or> prefix ''https://'' data_full
                \<or> prefix ''data:'' data_full)
          then
            (let full_path = path_normpath e (path_join e base_dir data_full) in
             if path_exists e full_path then
               (case to_data_uri e full_path of
                  Inr uri \<Rightarrow> (AList.update ''data-full'' uri img, st)
                | Inl exn \<Rightarrow>
                    (img, st\<lparr>printed := printed st @
                       [''[warn] failed to inline data-full '' @ full_path @ '': '' @ exn]\<rparr>))
             else (img, st))
          else (img, st))"

text \<open>
  Lines 60 to 65: the attempt to inline \<open>src\<close> from an existing path. The assignment
  to \<open>img["src"]\<close> happens only when \<open>to_data_uri\<close> returns.
\<close>

definition inline_src :: "env \<Rightarrow> string \<Rightarrow> element \<Rightarrow> state \<Rightarrow> element \<times> state" where
  "inline_src e local_path img st =
     (case to_data_uri e local_path of
        Inr uri \<Rightarrow> (AList.update ''src'' uri img, st\<lparr>changed := changed st + 1\<rparr>)
      | Inl exn \<Rightarrow>
          (img, st\<lparr>printed := printed st @
                    [''[warn] failed to inline '' @ local_path @ '': '' @ exn],
                  skipped := skipped st + 1\<rparr>))"

text \<open>
  The body of the loop, lines 48 to 75. Each \<open>continue\<close> of the source leaves the
  body at once, so the three early branches return without reaching the
  \<open>data-full\<close> lines.
\<close>

definition process_img :: "env \<Rightarrow> string \<Rightarrow> element \<Rightarrow> state \<Rightarrow> element \<times> state" where
  "process_img e base_dir img st =
     (let src = get_src img in
      if src = [] \<or> prefix ''data:'' src then (img, st)
      else if prefix ''http://'' src \<or> prefix ''https://'' src then
        (img, st\<lparr>skipped := skipped st + 1\<rparr>)
      else
        (let local_path = path_normpath e (path_join e base_dir src) in
         if \<not> path_exists e local_path then
           (img, st\<lparr>printed := printed st @
                     [''[warn] file not found for <img src='' @ [CHR 0x27] @ src @ [CHR 0x27]
                        @ ''> -> '' @ local_path],
                   skipped := skipped st + 1\<rparr>)
         else
           (case inline_src e local_path img st of
              (img1, st1) \<Rightarrow> data_full_step e base_dir img1 st1)))"

fun process_imgs :: "env \<Rightarrow> string \<Rightarrow> element list \<Rightarrow> state \<Rightarrow> element list \<times> state" where
  "process_imgs e base_dir [] st = ([], st)"
| "process_imgs e base_dir (img # imgs) st =
     (case process_img e base_dir img st of
        (img', st') \<Rightarrow>
          (case process_imgs e base_dir imgs st' of
             (imgs', st'') \<Rightarrow> (img' # imgs', st'')))"

subsection \<open>main\<close>

text \<open>\<open>str\<close> of a Python integer, as the f-string of the summary line formats it.\<close>

fun str_nat :: "nat \<Rightarrow> string" where
  "str_nat n =
     (if n < 10 then [char_of (48 + n)]
      else str_nat (n div 10) @ [char_of (48 + n mod 10)])"

declare str_nat.simps [simp del]

definition str_int :: "int \<Rightarrow> string" where
  "str_int i = (if i < 0 then CHR ''-'' # str_nat (nat (- i)) else str_nat (nat i))"

text \<open>
  How a run ends: \<open>sys.exit\<close> with a code, an exception that nothing catches, or the
  end of \<open>main\<close> (exit code 0). A run also has the lines it printed and, when it
  reached the write, the path written and the elements of the document written there.
\<close>

datatype ending = Exit int | Uncaught string | Returned

record run =
  ending :: ending
  stdout :: "string list"
  written :: "(string \<times> element list) option"

definition main :: "env \<Rightarrow> string list \<Rightarrow> run" where
  "main e argv =
     (if length argv < 3 then
        \<lparr>ending = Exit 1,
         stdout = [''Usage: python pack_to_single_html.py input.html output.single.html''],
         written = None\<rparr>
      else
        (let in_path = argv ! 1; out_path = argv ! 2 in
         if \<not> path_exists e in_path then
           \<lparr>ending = Exit 2,
            stdout = [''Error: input not found: '' @ in_path],
            written = None\<rparr>
         else
           (case load_imgs e in_path of
              Inl exn \<Rightarrow> \<lparr>ending = Uncaught exn, stdout = [], written = None\<rparr>
            | Inr imgs \<Rightarrow>
                (let base_dir = path_dirname e (path_abspath e in_path) in
                 case process_imgs e base_dir imgs
                        \<lparr>changed = 0, skipped = 0, printed = []\<rparr> of
                   (imgs', st) \<Rightarrow>
                     (case write_text e out_path of
                        Some exn \<Rightarrow>
                          \<lparr>ending = Uncaught exn, stdout = printed st, written = None\<rparr>
                      | None \<Rightarrow>
                          \<lparr>ending = Returned,
                           stdout = printed st @
                             [''Done. Inlined images: '' @ str_int (changed st)
                                @ '', skipped: '' @ str_int (skipped st),
                              ''Written: '' @ out_path],
                           written = Some (out_path, imgs')\<rparr>)))))"

subsection \<open>A POSIX environment for the examples\<close>

text \<open>
  The functions of \<open>posixpath\<close> in Python's standard library, for two path
  arguments, and a small file system under \<open>/site\<close>. The theorems below do not
  depend on them; the examples are evaluated in this environment.
\<close>

definition posix_join :: "string \<Rightarrow> string \<Rightarrow> string" where
  "posix_join a b =
     (if prefix ''/'' b then b
      else if a = [] \<or> suffix ''/'' a then a @ b
      else a @ ''/'' @ b)"

fun split_slash :: "string \<Rightarrow> string list" where
  "split_slash [] = [[]]"
| "split_slash (c # cs) =
     (if c = CHR ''/'' then [] # split_slash cs
      else (case split_slash cs of
              [] \<Rightarrow> [[c]]
            | w # ws \<Rightarrow> (c # w) # ws))"

fun join_slash :: "string list \<Rightarrow> string" where
  "join_slash [] = []"
| "join_slash [w] = w"
| "join_slash (w # ws) = w @ ''/'' @ join_slash ws"

fun norm_comps :: "nat \<Rightarrow> string list \<Rightarrow> string list \<Rightarrow> string list" where
  "norm_comps initial_slashes [] new_comps = new_comps"
| "norm_comps initial_slashes (c # comps) new_comps =
     (if c = [] \<or> c = ''.'' then norm_comps initial_slashes comps new_comps
      else if c \<noteq> ''..'' \<or> (initial_slashes = 0 \<and> new_comps = [])
              \<or> (new_comps \<noteq> [] \<and> last new_comps = ''..'')
      then norm_comps initial_slashes comps (new_comps @ [c])
      else if new_comps \<noteq> [] then norm_comps initial_slashes comps (butlast new_comps)
      else norm_comps initial_slashes comps new_comps)"

definition posix_normpath :: "string \<Rightarrow> string" where
  "posix_normpath path =
     (if path = [] then ''.''
      else
        (let initial_slashes =
               (if prefix ''/'' path then
                  (if prefix ''//'' path \<and> \<not> prefix ''///'' path then 2 else 1)
                else 0);
             p = replicate initial_slashes CHR ''/''
                   @ join_slash (norm_comps initial_slashes (split_slash path) [])
         in if p = [] then ''.'' else p))"

definition posix_abspath :: "string \<Rightarrow> string \<Rightarrow> string" where
  "posix_abspath cwd path =
     posix_normpath (if prefix ''/'' path then path else posix_join cwd path)"

definition posix_dirname :: "string \<Rightarrow> string" where
  "posix_dirname p =
     (let head = rev (dropWhile (\<lambda>c. c \<noteq> CHR ''/'') (rev p)) in
      if head \<noteq> [] \<and> head \<noteq> replicate (length head) CHR ''/''
      then rev (dropWhile (\<lambda>c. c = CHR ''/'') (rev head))
      else head)"

definition logo_bytes :: "byte list" where
  "logo_bytes = [0x89, 0x50, 0x4E, 0x47, 0x0D, 0x0A, 0x1A, 0x0A, 0x00, 0x00]"

definition full_bytes :: "byte list" where
  "full_bytes = [0xFF, 0xD8, 0xFF, 0xE0, 0x00, 0x10, 0x4A, 0x46]"

definition page_imgs :: "element list" where
  "page_imgs =
     [[(''src'', ''logo.png''), (''alt'', ''Logo'')],
      [(''src'', ''https://example.com/x.png'')],
      [(''src'', ''missing.png'')],
      [(''src'', ''locked.png''), (''data-full'', ''full.jpg'')],
      [(''alt'', ''no source''), (''data-full'', ''full.jpg'')]]"

text \<open>
  The directory \<open>/site\<close>, which is also the working directory, holds
  \<open>page.html\<close>, \<open>logo.png\<close> (ten bytes), \<open>full.jpg\<close> and \<open>locked.png\<close>, which
  exists and cannot be read.
\<close>

definition site_files :: "string list" where
  "site_files = [''/'', ''/site'', ''/site/page.html'', ''/site/logo.png'',
                 ''/site/full.jpg'', ''/site/locked.png'']"

definition site_read :: "string \<Rightarrow> string + byte list" where
  "site_read p =
     (if p = ''/site/logo.png'' then Inr logo_bytes
      else if p = ''/site/full.jpg'' then Inr full_bytes
      else if p = ''/site/locked.png'' then Inl ''[Errno 13] Permission denied''
      else if p = ''/site'' \<or> p = ''/'' then Inl ''[Errno 21] Is a directory''
      else Inl ''[Errno 2] No such file or directory'')"

definition site_guess_type :: "string \<Rightarrow> string option" where
  "site_guess_type p =
     (if suffix ''.png'' p then Some ''image/png''
      else if suffix ''.jpg'' p then Some ''image/jpeg''
      else if suffix ''.html'' p then Some ''text/html''
      else None)"

definition site_env :: env where
  "site_env =
     \<lparr>path_exists = (\<lambda>p. posix_abspath ''/site'' p \<in> set site_files),
      path_join = posix_join,
      path_normpath = posix_normpath,
      path_abspath = posix_abspath ''/site'',
      path_dirname = posix_dirname,
      guess_type = site_guess_type,
      read_bytes = (\<lambda>p. site_read (posix_abspath ''/site'' p)),
      load_imgs = (\<lambda>p. if posix_abspath ''/site'' p = ''/site/page.html'' then Inr page_imgs
                        else Inl ''[Errno 2] No such file or directory''),
      write_text = (\<lambda>p. None)\<rparr>"

definition st0 :: state where
  "st0 = \<lparr>changed = 0, skipped = 0, printed = []\<rparr>"

subsection \<open>Properties of base64\<close>

lemma index_of_nth:
  "distinct xs \<Longrightarrow> n < length xs \<Longrightarrow> index_of (xs ! n) xs = Some n"
proof (induction xs arbitrary: n)
  case Nil
  then show ?case by simp
next
  case (Cons x xs)
  show ?case
  proof (cases n)
    case 0
    then show ?thesis by simp
  next
    case (Suc m)
    with Cons.prems have "xs ! m \<in> set xs" and "x \<notin> set xs" by simp_all
    then have "x \<noteq> xs ! m" by blast
    with Suc Cons show ?thesis by simp
  qed
qed

lemma length_b64_alphabet: "length b64_alphabet = 64"
  by (simp add: b64_alphabet_def)

lemma distinct_b64_alphabet: "distinct b64_alphabet"
  by (simp add: b64_alphabet_def)

lemma pad_not_in_b64_alphabet: "CHR ''='' \<notin> set b64_alphabet"
  by (simp add: b64_alphabet_def)

lemma b64_index_char: "n < 64 \<Longrightarrow> b64_index (b64_char n) = Some n"
  unfolding b64_index_def b64_char_def
  by (rule index_of_nth) (simp_all add: distinct_b64_alphabet length_b64_alphabet)

lemma b64_char_not_pad: "n < 64 \<Longrightarrow> b64_char n \<noteq> CHR ''=''"
proof -
  assume "n < 64"
  then have "b64_char n \<in> set b64_alphabet"
    by (simp add: b64_char_def length_b64_alphabet)
  with pad_not_in_b64_alphabet show ?thesis by metis
qed

lemma div_glue: "r < m \<Longrightarrow> (q * m + r) div m = (q::nat)"
  by simp

lemma mod_glue: "r < m \<Longrightarrow> (q * m + r) mod m = (r::nat)"
  by simp

lemma hi_nibble_less: "y < 256 \<Longrightarrow> y div 16 < (16::nat)"
  by (simp add: less_mult_imp_div_less)

lemma hi_pair_less: "z < 256 \<Longrightarrow> z div 64 < (4::nat)"
  by (simp add: less_mult_imp_div_less)

lemma hi_six_less: "x < 256 \<Longrightarrow> x div 4 < (64::nat)"
  by (simp add: less_mult_imp_div_less)

lemma sextets_nat:
  fixes x y z :: nat
  assumes "y < 256" and "z < 256"
  shows "x div 4 * 4 + (x mod 4 * 16 + y div 16) div 16 = x"
    and "(x mod 4 * 16 + y div 16) mod 16 * 16 + (y mod 16 * 4 + z div 64) div 4 = y"
    and "(y mod 16 * 4 + z div 64) mod 4 * 64 + z mod 64 = z"
    and "x div 4 * 4 + (x mod 4 * 16) div 16 = x"
    and "(x mod 4 * 16 + y div 16) mod 16 * 16 + (y mod 16 * 4) div 4 = y"
proof -
  have y16: "y div 16 < 16" using assms(1) by (rule hi_nibble_less)
  have z64: "z div 64 < 4" using assms(2) by (rule hi_pair_less)
  have a: "(x mod 4 * 16 + y div 16) div 16 = x mod 4" using y16 by (rule div_glue)
  have b: "(x mod 4 * 16 + y div 16) mod 16 = y div 16" using y16 by (rule mod_glue)
  have c: "(y mod 16 * 4 + z div 64) div 4 = y mod 16" using z64 by (rule div_glue)
  have d: "(y mod 16 * 4 + z div 64) mod 4 = z div 64" using z64 by (rule mod_glue)
  show "x div 4 * 4 + (x mod 4 * 16 + y div 16) div 16 = x"
    unfolding a by simp
  show "(x mod 4 * 16 + y div 16) mod 16 * 16 + (y mod 16 * 4 + z div 64) div 4 = y"
    unfolding b c by simp
  show "(y mod 16 * 4 + z div 64) mod 4 * 64 + z mod 64 = z"
    unfolding d by simp
  show "x div 4 * 4 + (x mod 4 * 16) div 16 = x"
    by simp
  show "(x mod 4 * 16 + y div 16) mod 16 * 16 + (y mod 16 * 4) div 4 = y"
    unfolding b by simp
qed

lemma sextet_less_nat:
  fixes x y z :: nat
  assumes "x < 256" and "y < 256" and "z < 256"
  shows "x div 4 < 64"
    and "x mod 4 * 16 + y div 16 < 64"
    and "y mod 16 * 4 + z div 64 < 64"
    and "z mod 64 < 64"
    and "x mod 4 * 16 < 64"
    and "y mod 16 * 4 < 64"
proof -
  have y16: "y div 16 < 16" using assms(2) by (rule hi_nibble_less)
  have z64: "z div 64 < 4" using assms(3) by (rule hi_pair_less)
  have x4: "x mod 4 < 4" and y4: "y mod 16 < 16" by simp_all
  show "x div 4 < 64" using assms(1) by (rule hi_six_less)
  show "x mod 4 * 16 + y div 16 < 64" using x4 y16 by linarith
  show "y mod 16 * 4 + z div 64 < 64" using y4 z64 by linarith
  show "z mod 64 < 64" by simp
  show "x mod 4 * 16 < 64" using x4 by linarith
  show "y mod 16 * 4 < 64" using y4 by linarith
qed

lemma unat_byte_less: "unat (a :: byte) < 256"
  using unsigned_less [of a, where ?'a = nat] by simp

lemma sextet_bounds:
  "sextet0 a < 64" "sextet1 a b < 64" "sextet2 b c < 64" "sextet3 c < 64"
  unfolding sextet0_def sextet1_def sextet2_def sextet3_def
  by (rule sextet_less_nat [OF unat_byte_less unat_byte_less unat_byte_less])+

lemma octet0_sextets: "octet0 (sextet0 a) (sextet1 a b) = a"
  unfolding octet0_def sextet0_def sextet1_def
  by (simp only: sextets_nat(1) [OF unat_byte_less unat_byte_less] of_nat_unat ucast_id)

lemma octet1_sextets: "octet1 (sextet1 a b) (sextet2 b c) = b"
  unfolding octet1_def sextet1_def sextet2_def
  by (simp only: sextets_nat(2) [OF unat_byte_less unat_byte_less] of_nat_unat ucast_id)

lemma octet2_sextets: "octet2 (sextet2 b c) (sextet3 c) = c"
  unfolding octet2_def sextet2_def sextet3_def
  by (simp only: sextets_nat(3) [OF unat_byte_less unat_byte_less] of_nat_unat ucast_id)

lemmas b64_roundtrip_simps =
  sextet_bounds octet0_sextets octet1_sextets octet2_sextets

lemma b64decode_b64encode: "b64decode (b64encode bs) = Some bs"
proof (induction bs rule: b64encode.induct)
  case (1 a b c rest)
  then show ?case
    by (simp add: b64_index_char b64_char_not_pad b64_roundtrip_simps)
next
  case (2 a b)
  show ?case
    by (simp add: b64_index_char b64_char_not_pad b64_roundtrip_simps)
next
  case (3 a)
  show ?case
    by (simp add: b64_index_char b64_char_not_pad b64_roundtrip_simps)
next
  case 4
  show ?case by simp
qed

subsection \<open>Properties of the loop body\<close>

lemma data_full_step_counters:
  "changed (snd (data_full_step e base_dir img st)) = changed st"
  "skipped (snd (data_full_step e base_dir img st)) = skipped st"
  by (simp_all add: data_full_step_def Let_def split: option.split sum.split)

lemma data_full_step_src:
  "get_src (fst (data_full_step e base_dir img st)) = get_src img"
  by (simp add: data_full_step_def get_src_def Let_def update_conv'
      split: option.split sum.split)

lemma inline_src_data_full:
  "get_data_full (fst (inline_src e local_path img st)) = get_data_full img"
  by (simp add: inline_src_def get_data_full_def update_conv' split: sum.split)

lemma remote_not_excluded:
  assumes "prefix ''http://'' src \<or> prefix ''https://'' src"
  shows "src \<noteq> []" and "\<not> prefix ''data:'' src"
  using assms by (auto simp: prefix_def)

lemma data_uri_prefix: "prefix ''data:'' (''data:'' @ rest)"
  by simp

lemma process_img_excluded:
  "get_src img = [] \<or> prefix ''data:'' (get_src img) \<Longrightarrow>
   process_img e base_dir img st = (img, st)"
  by (simp add: process_img_def Let_def)

lemma process_img_remote:
  assumes "prefix ''http://'' (get_src img) \<or> prefix ''https://'' (get_src img)"
  shows "process_img e base_dir img st = (img, st\<lparr>skipped := skipped st + 1\<rparr>)"
  using assms remote_not_excluded [OF assms]
  by (simp add: process_img_def Let_def)

lemma process_img_local:
  assumes "get_src img \<noteq> []" and "\<not> prefix ''data:'' (get_src img)"
    and "\<not> prefix ''http://'' (get_src img)" and "\<not> prefix ''https://'' (get_src img)"
  shows "process_img e base_dir img st =
     (let local_path = path_normpath e (path_join e base_dir (get_src img)) in
      if \<not> path_exists e local_path then
        (img, st\<lparr>printed := printed st @
                  [''[warn] file not found for <img src='' @ [CHR 0x27] @ get_src img
                     @ [CHR 0x27] @ ''> -> '' @ local_path],
                skipped := skipped st + 1\<rparr>)
      else data_full_step e base_dir (fst (inline_src e local_path img st))
             (snd (inline_src e local_path img st)))"
  using assms by (simp add: process_img_def Let_def split: prod.split)

lemma process_img_counters:
  "(changed (snd (process_img e base_dir img st)) = changed st \<and>
    skipped (snd (process_img e base_dir img st)) = skipped st)
   \<or> (changed (snd (process_img e base_dir img st)) = changed st + 1 \<and>
    skipped (snd (process_img e base_dir img st)) = skipped st)
   \<or> (changed (snd (process_img e base_dir img st)) = changed st \<and>
    skipped (snd (process_img e base_dir img st)) = skipped st + 1)"
  by (simp add: process_img_def Let_def data_full_step_counters inline_src_def
      split: prod.split sum.split)

lemma process_imgs_length:
  "length (fst (process_imgs e base_dir imgs st)) = length imgs"
proof (induction imgs arbitrary: st)
  case Nil
  show ?case by simp
next
  case (Cons img imgs)
  obtain img' st' where step: "process_img e base_dir img st = (img', st')"
    by (cases "process_img e base_dir img st")
  obtain imgs' st'' where rest: "process_imgs e base_dir imgs st' = (imgs', st'')"
    by (cases "process_imgs e base_dir imgs st'")
  from Cons.IH [of st'] rest show ?case
    by (simp add: step)
qed

lemma process_imgs_counters:
  "changed st \<le> changed (snd (process_imgs e base_dir imgs st)) \<and>
   skipped st \<le> skipped (snd (process_imgs e base_dir imgs st)) \<and>
   changed (snd (process_imgs e base_dir imgs st)) + skipped (snd (process_imgs e base_dir imgs st))
     \<le> changed st + skipped st + int (length imgs)"
proof (induction imgs arbitrary: st)
  case Nil
  show ?case by simp
next
  case (Cons img imgs)
  obtain img' st' where step: "process_img e base_dir img st = (img', st')"
    by (cases "process_img e base_dir img st")
  obtain imgs' st'' where rest: "process_imgs e base_dir imgs st' = (imgs', st'')"
    by (cases "process_imgs e base_dir imgs st'")
  from process_img_counters [of e base_dir img st] step
  have one: "changed st \<le> changed st'" "skipped st \<le> skipped st'"
    "changed st' + skipped st' \<le> changed st + skipped st + 1"
    by auto
  from Cons.IH [of st'] rest
  have more: "changed st' \<le> changed st''" "skipped st' \<le> skipped st''"
    "changed st'' + skipped st'' \<le> changed st' + skipped st' + int (length imgs)"
    by simp_all
  from one more show ?case
    by (simp add: step rest)
qed

lemma process_imgs_excluded:
  "\<forall>img \<in> set imgs. get_src img = [] \<or> prefix ''data:'' (get_src img) \<Longrightarrow>
   process_imgs e base_dir imgs st = (imgs, st)"
  by (induction imgs) (simp_all add: process_img_excluded)

lemma process_imgs_Cons:
  "process_imgs e base_dir (img # rest) st =
     (fst (process_img e base_dir img st)
        # fst (process_imgs e base_dir rest (snd (process_img e base_dir img st))),
      snd (process_imgs e base_dir rest (snd (process_img e base_dir img st))))"
  by (simp split: prod.split)

lemma data_full_step_printed:
  "prefix (printed st) (printed (snd (data_full_step e base_dir img st)))"
  by (simp add: data_full_step_def Let_def split: option.split sum.split)

lemma get_src_Some: "map_of img ''src'' = Some src \<Longrightarrow> get_src img = src"
  by (simp add: get_src_def)

lemma get_src_eq_map_of:
  "map_of img ''src'' = Some src \<Longrightarrow> get_src img' = get_src img \<Longrightarrow> src \<noteq> [] \<Longrightarrow>
   map_of img' ''src'' = Some src"
  by (auto simp: get_src_def split: option.splits)

lemma to_data_uri_Inr:
  "read_bytes e path = Inr b \<Longrightarrow>
   to_data_uri e path =
     Inr (''data:'' @ (case guess_type e path of
                         None \<Rightarrow> ''application/octet-stream''
                       | Some m \<Rightarrow> if m = [] then ''application/octet-stream'' else m)
          @ '';base64,'' @ b64encode b)"
  by (simp add: to_data_uri_def)

lemma to_data_uri_Inl: "read_bytes e path = Inl exn \<Longrightarrow> to_data_uri e path = Inl exn"
  by (simp add: to_data_uri_def)

lemma to_data_uri_is_data:
  "to_data_uri e path = Inr uri \<Longrightarrow> prefix ''data:'' uri"
  by (auto simp: to_data_uri_def Let_def split: sum.splits)

lemma inline_src_ok:
  "to_data_uri e local_path = Inr uri \<Longrightarrow>
   inline_src e local_path img st =
     (AList.update ''src'' uri img, st\<lparr>changed := changed st + 1\<rparr>)"
  by (simp add: inline_src_def)

lemma inline_src_failed:
  "to_data_uri e local_path = Inl exn \<Longrightarrow>
   inline_src e local_path img st =
     (img, st\<lparr>printed := printed st @
                [''[warn] failed to inline '' @ local_path @ '': '' @ exn],
              skipped := skipped st + 1\<rparr>)"
  by (simp add: inline_src_def)

lemma get_src_update: "get_src (AList.update ''src'' uri img) = uri"
  by (simp add: get_src_def update_conv')

subsection \<open>Evaluation in the example environment\<close>

lemmas site_eval =
  site_env_def site_files_def site_read_def site_guess_type_def st0_def
  posix_join_def posix_normpath_def posix_abspath_def posix_dirname_def suffix_to_prefix
  numeral_2_eq_2

lemmas b64_eval =
  logo_bytes_def full_bytes_def b64_char_def b64_alphabet_def b64_index_def
  sextet0_def sextet1_def sextet2_def sextet3_def octet0_def octet1_def octet2_def

lemma site_resolve:
  "path_normpath site_env (path_join site_env ''/site'' ''logo.png'') = ''/site/logo.png''"
  "path_normpath site_env (path_join site_env ''/site'' ''full.jpg'') = ''/site/full.jpg''"
  "path_normpath site_env (path_join site_env ''/site'' ''locked.png'') = ''/site/locked.png''"
  "path_normpath site_env (path_join site_env ''/site'' ''missing.png'') = ''/site/missing.png''"
  "path_normpath site_env (path_join site_env ''/site'' ''HTTP://host/x'') = ''/site/HTTP:/host/x''"
  "path_normpath site_env (path_join site_env ''/site'' ''//host/x'') = ''//host/x''"
  by (simp_all add: site_eval)

lemma site_exists:
  "path_exists site_env ''/site/logo.png''"
  "path_exists site_env ''/site/full.jpg''"
  "path_exists site_env ''/site/locked.png''"
  "\<not> path_exists site_env ''/site/missing.png''"
  "\<not> path_exists site_env ''/site/HTTP:/host/x''"
  "\<not> path_exists site_env ''//host/x''"
  "\<not> path_exists site_env ''ghost.html''"
  by (simp_all add: site_eval)

lemma site_read_bytes:
  "read_bytes site_env ''/site/logo.png'' = Inr logo_bytes"
  "read_bytes site_env ''/site/full.jpg'' = Inr full_bytes"
  "read_bytes site_env ''/site/locked.png'' = Inl ''[Errno 13] Permission denied''"
  by (simp_all add: site_eval)

lemma site_guess:
  "guess_type site_env ''/site/logo.png'' = Some ''image/png''"
  "guess_type site_env ''/site/full.jpg'' = Some ''image/jpeg''"
  by (simp_all add: site_eval)

lemma site_b64:
  "b64encode logo_bytes = ''iVBORw0KGgoAAA==''"
  "b64encode full_bytes = ''/9j/4AAQSkY=''"
  by (simp_all add: b64_eval)

lemma site_to_data_uri:
  "to_data_uri site_env ''/site/logo.png'' = Inr ''data:image/png;base64,iVBORw0KGgoAAA==''"
  "to_data_uri site_env ''/site/full.jpg'' = Inr ''data:image/jpeg;base64,/9j/4AAQSkY=''"
  "to_data_uri site_env ''/site/locked.png'' = Inl ''[Errno 13] Permission denied''"
  by (simp_all add: to_data_uri_def site_read_bytes site_guess site_b64)

lemmas site_facts = site_resolve site_exists site_read_bytes site_guess site_b64 site_to_data_uri

subsection \<open>The claims\<close>

text \<open>
  C5. An \<open>img\<close> element whose \<open>src\<close> attribute is absent, is the empty string, or
  starts with \<open>data:\<close> is skipped entirely: the element is left as it is, no counter
  changes and nothing is printed.
\<close>

theorem src_absent_empty_or_data_is_skipped:
  assumes "map_of img ''src'' = None \<or> map_of img ''src'' = Some []
           \<or> (\<exists>v. map_of img ''src'' = Some v \<and> prefix ''data:'' v)"
  shows "process_img e base_dir img st = (img, st)"
proof -
  from assms have "get_src img = [] \<or> prefix ''data:'' (get_src img)"
    by (auto simp: get_src_def)
  then show ?thesis by (rule process_img_excluded)
qed

theorem src_absent_empty_or_data_is_skipped_witness:
  "map_of [(''alt'', ''no source''), (''data-full'', ''full.jpg'')] ''src'' = None
   \<and> process_img site_env ''/site'' [(''alt'', ''no source''), (''data-full'', ''full.jpg'')] st0
       = ([(''alt'', ''no source''), (''data-full'', ''full.jpg'')], st0)
   \<and> map_of [(''src'', '''')] ''src'' = Some []
   \<and> process_img site_env ''/site'' [(''src'', '''')] st0 = ([(''src'', '''')], st0)
   \<and> prefix ''data:'' ''data:image/gif;base64,AAAA''
   \<and> process_img site_env ''/site'' [(''src'', ''data:image/gif;base64,AAAA'')] st0
       = ([(''src'', ''data:image/gif;base64,AAAA'')], st0)"
  using
    src_absent_empty_or_data_is_skipped
      [where img = "[(''alt'', ''no source''), (''data-full'', ''full.jpg'')]"
         and e = site_env and base_dir = "''/site''" and st = st0]
    src_absent_empty_or_data_is_skipped
      [where img = "[(''src'', '''')]" and e = site_env and base_dir = "''/site''" and st = st0]
    src_absent_empty_or_data_is_skipped
      [where img = "[(''src'', ''data:image/gif;base64,AAAA'')]"
         and e = site_env and base_dir = "''/site''" and st = st0]
  by simp

text \<open>
  C3. An \<open>img\<close> element whose \<open>src\<close> starts with \<open>http://\<close> or \<open>https://\<close> keeps
  its \<open>src\<close>, and \<open>skipped\<close> grows by exactly 1; the element, \<open>changed\<close> and the
  printed lines are as before.
\<close>

theorem remote_src_is_kept_and_counted:
  assumes "map_of img ''src'' = Some src"
    and "prefix ''http://'' src \<or> prefix ''https://'' src"
  shows "process_img e base_dir img st = (img, st\<lparr>skipped := skipped st + 1\<rparr>)
         \<and> map_of (fst (process_img e base_dir img st)) ''src'' = Some src
         \<and> skipped (snd (process_img e base_dir img st)) = skipped st + 1
         \<and> changed (snd (process_img e base_dir img st)) = changed st
         \<and> printed (snd (process_img e base_dir img st)) = printed st"
proof -
  from assms have "prefix ''http://'' (get_src img) \<or> prefix ''https://'' (get_src img)"
    by (simp add: get_src_Some)
  then have "process_img e base_dir img st = (img, st\<lparr>skipped := skipped st + 1\<rparr>)"
    by (rule process_img_remote)
  with assms(1) show ?thesis by simp
qed

theorem remote_src_is_kept_and_counted_witness:
  "map_of [(''src'', ''https://example.com/x.png'')] ''src'' = Some ''https://example.com/x.png''
   \<and> prefix ''https://'' ''https://example.com/x.png''
   \<and> process_img site_env ''/site'' [(''src'', ''https://example.com/x.png'')] st0
       = ([(''src'', ''https://example.com/x.png'')], \<lparr>changed = 0, skipped = 1, printed = []\<rparr>)"
  using remote_src_is_kept_and_counted
    [where img = "[(''src'', ''https://example.com/x.png'')]"
       and src = "''https://example.com/x.png''"
       and e = site_env and base_dir = "''/site''" and st = st0]
  by (simp add: st0_def)

text \<open>
  C7. With fewer than two positional arguments \<open>main\<close> prints the usage line and exits
  with code 1; with an input path that does not exist it prints an error line that
  holds the path and exits with code 2. In both cases nothing is written.
\<close>

theorem main_bad_invocation:
  "(length argv < 3 \<longrightarrow>
      main e argv =
        \<lparr>ending = Exit 1,
         stdout = [''Usage: python pack_to_single_html.py input.html output.single.html''],
         written = None\<rparr>)
   \<and> (3 \<le> length argv \<and> \<not> path_exists e (argv ! 1) \<longrightarrow>
      main e argv =
        \<lparr>ending = Exit 2,
         stdout = [''Error: input not found: '' @ argv ! 1],
         written = None\<rparr>)"
  by (simp add: main_def Let_def)

theorem main_bad_invocation_witness:
  "length [''pack_to_single_html.py''] < 3
   \<and> main site_env [''pack_to_single_html.py''] =
        \<lparr>ending = Exit 1,
         stdout = [''Usage: python pack_to_single_html.py input.html output.single.html''],
         written = None\<rparr>
   \<and> 3 \<le> length [''pack_to_single_html.py'', ''ghost.html'', ''out.html'']
   \<and> \<not> path_exists site_env ''ghost.html''
   \<and> main site_env [''pack_to_single_html.py'', ''ghost.html'', ''out.html''] =
        \<lparr>ending = Exit 2,
         stdout = [''Error: input not found: ghost.html''],
         written = None\<rparr>"
  using
    main_bad_invocation [where argv = "[''pack_to_single_html.py'']" and e = site_env]
    main_bad_invocation
      [where argv = "[''pack_to_single_html.py'', ''ghost.html'', ''out.html'']"
         and e = site_env]
  by (simp add: site_exists)

lemma last_snoc_suffix: "w = pre @ p \<Longrightarrow> suffix p (last (xs @ [w]))"
  by (simp add: suffix_def)

text \<open>
  C4. An \<open>img\<close> element whose \<open>src\<close> is a local reference to a path that does not
  exist keeps its \<open>src\<close>; \<open>skipped\<close> grows by exactly 1, one warning that ends with
  the resolved path is printed, and the loop goes on with the elements that follow.
\<close>

theorem missing_local_src_is_skipped_with_warning:
  assumes "map_of img ''src'' = Some src"
    and "src \<noteq> []" and "\<not> prefix ''data:'' src"
    and "\<not> prefix ''http://'' src" and "\<not> prefix ''https://'' src"
    and "local_path = path_normpath e (path_join e base_dir src)"
    and "\<not> path_exists e local_path"
    and "st' = st\<lparr>printed := printed st @
                  [''[warn] file not found for <img src='' @ [CHR 0x27] @ src @ [CHR 0x27]
                     @ ''> -> '' @ local_path],
                skipped := skipped st + 1\<rparr>"
  shows "process_img e base_dir img st = (img, st')
         \<and> map_of (fst (process_img e base_dir img st)) ''src'' = Some src
         \<and> skipped st' = skipped st + 1 \<and> changed st' = changed st
         \<and> suffix local_path (last (printed st'))
         \<and> process_imgs e base_dir (img # rest) st =
             (img # fst (process_imgs e base_dir rest st'),
              snd (process_imgs e base_dir rest st'))"
proof -
  have src: "get_src img = src" using assms(1) by (rule get_src_Some)
  have step: "process_img e base_dir img st = (img, st')"
    using assms(2-8) by (simp add: process_img_local src Let_def)
  have pr: "printed st' = printed st @
      [(''[warn] file not found for <img src='' @ [CHR 0x27] @ src @ [CHR 0x27] @ ''> -> '')
         @ local_path]"
    by (simp add: assms(8))
  have named: "suffix local_path (last (printed st'))"
    unfolding pr by (rule last_snoc_suffix [OF refl])
  have kept: "map_of (fst (process_img e base_dir img st)) ''src'' = Some src"
    by (simp add: step assms(1))
  have counters: "skipped st' = skipped st + 1" "changed st' = changed st"
    by (simp_all add: assms(8))
  have loop: "process_imgs e base_dir (img # rest) st =
      (img # fst (process_imgs e base_dir rest st'), snd (process_imgs e base_dir rest st'))"
    by (simp only: process_imgs_Cons step fst_conv snd_conv)
  from step kept counters named loop show ?thesis by blast
qed

theorem missing_local_src_is_skipped_with_warning_witness:
  "process_img site_env ''/site'' [(''src'', ''missing.png'')] st0 =
     ([(''src'', ''missing.png'')],
      \<lparr>changed = 0, skipped = 1,
       printed = [''[warn] file not found for <img src='' @ [CHR 0x27] @ ''missing.png''
                    @ [CHR 0x27] @ ''> -> /site/missing.png'']\<rparr>)
   \<and> process_imgs site_env ''/site''
         [[(''src'', ''missing.png'')], [(''src'', ''logo.png'')]] st0 =
     ([[(''src'', ''missing.png'')], [(''src'', ''data:image/png;base64,iVBORw0KGgoAAA=='')]],
      \<lparr>changed = 1, skipped = 1,
       printed = [''[warn] file not found for <img src='' @ [CHR 0x27] @ ''missing.png''
                    @ [CHR 0x27] @ ''> -> /site/missing.png'']\<rparr>)"
  using missing_local_src_is_skipped_with_warning
    [where img = "[(''src'', ''missing.png'')]" and src = "''missing.png''"
       and e = site_env and base_dir = "''/site''" and st = st0
       and local_path = "''/site/missing.png''"
       and rest = "[[(''src'', ''logo.png'')]]", OF _ _ _ _ _ _ _ refl]
  by (simp add: site_facts st0_def process_img_def get_src_def data_full_step_def
      get_data_full_def inline_src_def)

text \<open>
  C6. When reading an existing resolved file raises, the exception is caught: one
  warning is printed, \<open>skipped\<close> grows by exactly 1, \<open>changed\<close> and the \<open>src\<close>
  attribute stay as they were, the rest of the loop body (the \<open>data-full\<close> lines)
  runs, and the loop goes on with the elements that follow. Encoding cannot fail in
  the model: \<open>b64encode\<close> is total on byte lists.
\<close>

theorem read_failure_is_caught_and_counted:
  assumes "map_of img ''src'' = Some src"
    and "src \<noteq> []" and "\<not> prefix ''data:'' src"
    and "\<not> prefix ''http://'' src" and "\<not> prefix ''https://'' src"
    and "local_path = path_normpath e (path_join e base_dir src)"
    and "path_exists e local_path"
    and "read_bytes e local_path = Inl exn"
    and "st1 = st\<lparr>printed := printed st @
                  [''[warn] failed to inline '' @ local_path @ '': '' @ exn],
                skipped := skipped st + 1\<rparr>"
  shows "process_img e base_dir img st = data_full_step e base_dir img st1
         \<and> map_of (fst (process_img e base_dir img st)) ''src'' = Some src
         \<and> skipped (snd (process_img e base_dir img st)) = skipped st + 1
         \<and> changed (snd (process_img e base_dir img st)) = changed st
         \<and> prefix (printed st @ [''[warn] failed to inline '' @ local_path @ '': '' @ exn])
              (printed (snd (process_img e base_dir img st)))
         \<and> process_imgs e base_dir (img # rest) st =
             (fst (process_img e base_dir img st)
                # fst (process_imgs e base_dir rest (snd (process_img e base_dir img st))),
              snd (process_imgs e base_dir rest (snd (process_img e base_dir img st))))"
proof -
  have src: "get_src img = src" using assms(1) by (rule get_src_Some)
  have "to_data_uri e local_path = Inl exn" using assms(8) by (rule to_data_uri_Inl)
  then have "inline_src e local_path img st = (img, st1)"
    unfolding assms(9) by (rule inline_src_failed)
  then have step: "process_img e base_dir img st = data_full_step e base_dir img st1"
    using assms(2-7) by (simp add: process_img_local src Let_def)
  have "get_src (fst (data_full_step e base_dir img st1)) = get_src img"
    by (rule data_full_step_src)
  from assms(1) this assms(2) have kept: "map_of (fst (data_full_step e base_dir img st1)) ''src'' = Some src"
    by (rule get_src_eq_map_of)
  have "prefix (printed st1) (printed (snd (data_full_step e base_dir img st1)))"
    by (rule data_full_step_printed)
  then have warned:
    "prefix (printed st @ [''[warn] failed to inline '' @ local_path @ '': '' @ exn])
       (printed (snd (data_full_step e base_dir img st1)))"
    by (simp add: assms(9))
  have counters: "skipped (snd (data_full_step e base_dir img st1)) = skipped st + 1"
    "changed (snd (data_full_step e base_dir img st1)) = changed st"
    by (simp_all add: data_full_step_counters assms(9))
  show ?thesis
    unfolding process_imgs_Cons step using kept warned counters by simp
qed

theorem read_failure_is_caught_and_counted_witness:
  "process_img site_env ''/site'' [(''src'', ''locked.png''), (''data-full'', ''full.jpg'')] st0 =
     ([(''src'', ''locked.png''), (''data-full'', ''data:image/jpeg;base64,/9j/4AAQSkY='')],
      \<lparr>changed = 0, skipped = 1,
       printed = [''[warn] failed to inline /site/locked.png: [Errno 13] Permission denied'']\<rparr>)"
  using read_failure_is_caught_and_counted
    [where img = "[(''src'', ''locked.png''), (''data-full'', ''full.jpg'')]"
       and src = "''locked.png''" and e = site_env and base_dir = "''/site''" and st = st0
       and local_path = "''/site/locked.png''" and exn = "''[Errno 13] Permission denied''"
       and rest = "[]", OF _ _ _ _ _ _ _ _ refl]
  by (simp add: site_facts st0_def data_full_step_def get_data_full_def)

lemma process_img_inlined:
  assumes "get_src img \<noteq> []" and "\<not> prefix ''data:'' (get_src img)"
    and "\<not> prefix ''http://'' (get_src img)" and "\<not> prefix ''https://'' (get_src img)"
    and "local_path = path_normpath e (path_join e base_dir (get_src img))"
    and "path_exists e local_path"
    and "to_data_uri e local_path = Inr uri"
  shows "process_img e base_dir img st =
           data_full_step e base_dir (AList.update ''src'' uri img)
             (st\<lparr>changed := changed st + 1\<rparr>)"
    and "get_src (fst (process_img e base_dir img st)) = uri"
    and "changed (snd (process_img e base_dir img st)) = changed st + 1"
    and "skipped (snd (process_img e base_dir img st)) = skipped st"
proof -
  have "inline_src e local_path img st =
          (AList.update ''src'' uri img, st\<lparr>changed := changed st + 1\<rparr>)"
    using assms(7) by (rule inline_src_ok)
  then show step: "process_img e base_dir img st =
      data_full_step e base_dir (AList.update ''src'' uri img) (st\<lparr>changed := changed st + 1\<rparr>)"
    using assms(1-6) by (simp add: process_img_local Let_def)
  show "get_src (fst (process_img e base_dir img st)) = uri"
    unfolding step by (simp only: data_full_step_src get_src_update)
  show "changed (snd (process_img e base_dir img st)) = changed st + 1"
    unfolding step by (simp add: data_full_step_counters)
  show "skipped (snd (process_img e base_dir img st)) = skipped st"
    unfolding step by (simp add: data_full_step_counters)
qed

text \<open>
  C2. An \<open>img\<close> element whose \<open>src\<close> resolves, by \<open>normpath(join(base_dir, src))\<close>,
  to an existing file that is read without error gets the \<open>src\<close>
  \<open>data:<mime>;base64,<b64>\<close>, where \<open><b64>\<close> is the base64 encoding of the bytes
  of the file, so that decoding it gives these bytes back, and \<open><mime>\<close> is the guessed
  type, or \<open>application/octet-stream\<close> when there is none; \<open>changed\<close> grows by
  exactly 1 and \<open>skipped\<close> stays.
\<close>

theorem existing_local_src_is_inlined:
  assumes "map_of img ''src'' = Some src"
    and "src \<noteq> []" and "\<not> prefix ''data:'' src"
    and "\<not> prefix ''http://'' src" and "\<not> prefix ''https://'' src"
    and "local_path = path_normpath e (path_join e base_dir src)"
    and "path_exists e local_path"
    and "read_bytes e local_path = Inr b"
    and "mime = (case guess_type e local_path of
                   None \<Rightarrow> ''application/octet-stream''
                 | Some m \<Rightarrow> if m = [] then ''application/octet-stream'' else m)"
  shows "map_of (fst (process_img e base_dir img st)) ''src''
           = Some (''data:'' @ mime @ '';base64,'' @ b64encode b)
         \<and> b64decode (b64encode b) = Some b
         \<and> changed (snd (process_img e base_dir img st)) = changed st + 1
         \<and> skipped (snd (process_img e base_dir img st)) = skipped st"
proof -
  let ?uri = "''data:'' @ mime @ '';base64,'' @ b64encode b"
  have src: "get_src img = src" using assms(1) by (rule get_src_Some)
  have uri: "to_data_uri e local_path = Inr ?uri"
    unfolding assms(9) using assms(8) by (rule to_data_uri_Inr)
  have local: "get_src img \<noteq> []" "\<not> prefix ''data:'' (get_src img)"
    "\<not> prefix ''http://'' (get_src img)" "\<not> prefix ''https://'' (get_src img)"
    "local_path = path_normpath e (path_join e base_dir (get_src img))"
    using assms(2-6) by (simp_all add: src)
  note res = process_img_inlined [OF local assms(7) uri, of st]
  have "get_src (fst (process_img e base_dir img st)) = ?uri" by (rule res(2))
  then have "map_of (fst (process_img e base_dir img st)) ''src'' = Some ?uri"
    by (auto simp: get_src_def split: option.splits)
  with res(3,4) b64decode_b64encode [of b] show ?thesis by blast
qed

theorem existing_local_src_is_inlined_witness:
  "map_of (fst (process_img site_env ''/site'' [(''src'', ''logo.png''), (''alt'', ''Logo'')] st0))
       ''src'' = Some ''data:image/png;base64,iVBORw0KGgoAAA==''
   \<and> b64decode ''iVBORw0KGgoAAA=='' = Some logo_bytes
   \<and> changed (snd (process_img site_env ''/site''
         [(''src'', ''logo.png''), (''alt'', ''Logo'')] st0)) = 1
   \<and> skipped (snd (process_img site_env ''/site''
         [(''src'', ''logo.png''), (''alt'', ''Logo'')] st0)) = 0"
  using existing_local_src_is_inlined
    [where img = "[(''src'', ''logo.png''), (''alt'', ''Logo'')]" and src = "''logo.png''"
       and e = site_env and base_dir = "''/site''" and st = st0
       and local_path = "''/site/logo.png''" and b = logo_bytes and mime = "''image/png''"]
  by (simp add: site_facts st0_def)

text \<open>
  C8. Idempotence. An element whose \<open>src\<close> was inlined by one run has a \<open>src\<close> that
  starts with \<open>data:\<close>; a second run, in any environment and from any state, returns
  this element and the state as they are, so it adds nothing to \<open>changed\<close>. A document
  all of whose \<open>img\<close> elements are in this case, or have no \<open>src\<close>, comes back
  unchanged with unchanged counters. (The second run reads the elements the first one
  wrote; serialising and parsing again are the HTML library's.)
\<close>

theorem second_run_leaves_inlined_src:
  assumes "map_of img ''src'' = Some src"
    and "src \<noteq> []" and "\<not> prefix ''data:'' src"
    and "\<not> prefix ''http://'' src" and "\<not> prefix ''https://'' src"
    and "local_path = path_normpath e (path_join e base_dir src)"
    and "path_exists e local_path"
    and "read_bytes e local_path = Inr b"
    and "process_img e base_dir img st = (img', st')"
  shows "prefix ''data:'' (get_src img')
         \<and> process_img e2 base_dir2 img' st2 = (img', st2)
         \<and> ((\<forall>i \<in> set imgs. get_src i = [] \<or> prefix ''data:'' (get_src i)) \<longrightarrow>
               process_imgs e2 base_dir2 (img' # imgs) st2 = (img' # imgs, st2))"
proof -
  have src: "get_src img = src" using assms(1) by (rule get_src_Some)
  obtain uri where uri: "to_data_uri e local_path = Inr uri"
    using to_data_uri_Inr [OF assms(8)] by blast
  have local: "get_src img \<noteq> []" "\<not> prefix ''data:'' (get_src img)"
    "\<not> prefix ''http://'' (get_src img)" "\<not> prefix ''https://'' (get_src img)"
    "local_path = path_normpath e (path_join e base_dir (get_src img))"
    using assms(2-6) by (simp_all add: src)
  have "get_src (fst (process_img e base_dir img st)) = uri"
    by (rule process_img_inlined(2) [OF local assms(7) uri])
  then have "get_src img' = uri" by (simp add: assms(9))
  with to_data_uri_is_data [OF uri] have data: "prefix ''data:'' (get_src img')" by simp
  then have again: "process_img e2 base_dir2 img' st2 = (img', st2)"
    by (simp add: process_img_excluded)
  have "process_imgs e2 base_dir2 (img' # imgs) st2 = (img' # imgs, st2)"
    if "\<forall>i \<in> set imgs. get_src i = [] \<or> prefix ''data:'' (get_src i)"
    using that data by (intro process_imgs_excluded) simp
  with data again show ?thesis by blast
qed

theorem second_run_leaves_inlined_src_witness:
  "process_img site_env ''/site'' [(''src'', ''logo.png''), (''alt'', ''Logo'')] st0 =
     ([(''src'', ''data:image/png;base64,iVBORw0KGgoAAA==''), (''alt'', ''Logo'')],
      \<lparr>changed = 1, skipped = 0, printed = []\<rparr>)
   \<and> process_img site_env ''/elsewhere''
         [(''src'', ''data:image/png;base64,iVBORw0KGgoAAA==''), (''alt'', ''Logo'')] st0 =
     ([(''src'', ''data:image/png;base64,iVBORw0KGgoAAA==''), (''alt'', ''Logo'')], st0)"
proof -
  have first: "process_img site_env ''/site'' [(''src'', ''logo.png''), (''alt'', ''Logo'')] st0 =
     ([(''src'', ''data:image/png;base64,iVBORw0KGgoAAA==''), (''alt'', ''Logo'')],
      \<lparr>changed = 1, skipped = 0, printed = []\<rparr>)"
    by (simp add: process_img_def get_src_def inline_src_def data_full_step_def
        get_data_full_def site_facts st0_def)
  have "map_of [(''src'', ''logo.png''), (''alt'', ''Logo'')] ''src'' = Some ''logo.png''"
    and "''logo.png'' \<noteq> []" and "\<not> prefix ''data:'' ''logo.png''"
    and "\<not> prefix ''http://'' ''logo.png''" and "\<not> prefix ''https://'' ''logo.png''"
    and "''/site/logo.png'' = path_normpath site_env (path_join site_env ''/site'' ''logo.png'')"
    by (simp_all add: site_facts)
  from second_run_leaves_inlined_src
         [OF this site_exists(1) site_read_bytes(1) first,
          where ?e2.0 = site_env and ?base_dir2.0 = "''/elsewhere''" and ?st2.0 = st0]
       first
  show ?thesis by simp
qed

lemma data_full_step_local:
  assumes "get_data_full img = Some v"
    and "v \<noteq> []" and "\<not> prefix ''data:'' v"
    and "\<not> prefix ''http://'' v" and "\<not> prefix ''https://'' v"
  shows "data_full_step e base_dir img st =
     (let full_path = path_normpath e (path_join e base_dir v) in
      if path_exists e full_path then
        (case to_data_uri e full_path of
           Inr uri \<Rightarrow> (AList.update ''data-full'' uri img, st)
         | Inl exn \<Rightarrow>
             (img, st\<lparr>printed := printed st @
                [''[warn] failed to inline data-full '' @ full_path @ '': '' @ exn]\<rparr>))
      else (img, st))"
  using assms by (simp add: data_full_step_def)

text \<open>
  C9. The tests for \<open>http://\<close>, \<open>https://\<close> and \<open>data:\<close> compare the first
  characters exactly. A value that does not start with one of these three strings as
  they are written, such as \<open>HTTP://host/x\<close>, \<open>Https://host/x\<close> or \<open>//host/x\<close>, is
  a local path for \<open>src\<close> and for \<open>data-full\<close>: it is resolved against the base
  directory and either missing (warning, \<open>skipped\<close>) or inlined; it never takes the
  branch of the remote references.
\<close>

theorem prefix_tests_are_exact:
  "(\<forall>v \<in> set [''HTTP://host/x'', ''Https://host/x'', ''HTTPS://host/x'', ''//host/x''].
      v \<noteq> [] \<and> \<not> prefix ''data:'' v \<and> \<not> prefix ''http://'' v \<and> \<not> prefix ''https://'' v)
   \<and> (v \<noteq> [] \<and> \<not> prefix ''data:'' v \<and> \<not> prefix ''http://'' v \<and> \<not> prefix ''https://'' v \<longrightarrow>
        (map_of img ''src'' = Some v \<longrightarrow>
           process_img e base_dir img st =
             (let local_path = path_normpath e (path_join e base_dir v) in
              if \<not> path_exists e local_path then
                (img, st\<lparr>printed := printed st @
                          [''[warn] file not found for <img src='' @ [CHR 0x27] @ v
                             @ [CHR 0x27] @ ''> -> '' @ local_path],
                        skipped := skipped st + 1\<rparr>)
              else data_full_step e base_dir (fst (inline_src e local_path img st))
                     (snd (inline_src e local_path img st))))
        \<and> (map_of img ''data-full'' = Some v \<longrightarrow>
           data_full_step e base_dir img st =
             (let full_path = path_normpath e (path_join e base_dir v) in
              if path_exists e full_path then
                (case to_data_uri e full_path of
                   Inr uri \<Rightarrow> (AList.update ''data-full'' uri img, st)
                 | Inl exn \<Rightarrow>
                     (img, st\<lparr>printed := printed st @
                        [''[warn] failed to inline data-full '' @ full_path @ '': '' @ exn]\<rparr>))
              else (img, st))))"
proof (intro conjI impI)
  show "\<forall>v \<in> set [''HTTP://host/x'', ''Https://host/x'', ''HTTPS://host/x'', ''//host/x''].
      v \<noteq> [] \<and> \<not> prefix ''data:'' v \<and> \<not> prefix ''http://'' v \<and> \<not> prefix ''https://'' v"
    by simp
next
  assume v: "v \<noteq> [] \<and> \<not> prefix ''data:'' v \<and> \<not> prefix ''http://'' v \<and> \<not> prefix ''https://'' v"
    and "map_of img ''src'' = Some v"
  then have g: "get_src img = v" by (simp add: get_src_Some)
  from v process_img_local [of img e base_dir st]
  show "process_img e base_dir img st =
     (let local_path = path_normpath e (path_join e base_dir v) in
      if \<not> path_exists e local_path then
        (img, st\<lparr>printed := printed st @
                  [''[warn] file not found for <img src='' @ [CHR 0x27] @ v
                     @ [CHR 0x27] @ ''> -> '' @ local_path],
                skipped := skipped st + 1\<rparr>)
      else data_full_step e base_dir (fst (inline_src e local_path img st))
             (snd (inline_src e local_path img st)))"
    unfolding g by simp
next
  assume v: "v \<noteq> [] \<and> \<not> prefix ''data:'' v \<and> \<not> prefix ''http://'' v \<and> \<not> prefix ''https://'' v"
    and "map_of img ''data-full'' = Some v"
  then have "get_data_full img = Some v" by (simp add: get_data_full_def)
  with v data_full_step_local [of img v e base_dir st]
  show "data_full_step e base_dir img st =
     (let full_path = path_normpath e (path_join e base_dir v) in
      if path_exists e full_path then
        (case to_data_uri e full_path of
           Inr uri \<Rightarrow> (AList.update ''data-full'' uri img, st)
         | Inl exn \<Rightarrow>
             (img, st\<lparr>printed := printed st @
                [''[warn] failed to inline data-full '' @ full_path @ '': '' @ exn]\<rparr>))
      else (img, st))"
    by simp
qed

theorem prefix_tests_are_exact_witness:
  "process_img site_env ''/site'' [(''src'', ''HTTP://host/x'')] st0 =
     ([(''src'', ''HTTP://host/x'')],
      \<lparr>changed = 0, skipped = 1,
       printed = [''[warn] file not found for <img src='' @ [CHR 0x27] @ ''HTTP://host/x''
                    @ [CHR 0x27] @ ''> -> /site/HTTP:/host/x'']\<rparr>)
   \<and> process_img site_env ''/site'' [(''src'', ''//host/x'')] st0 =
     ([(''src'', ''//host/x'')],
      \<lparr>changed = 0, skipped = 1,
       printed = [''[warn] file not found for <img src='' @ [CHR 0x27] @ ''//host/x''
                    @ [CHR 0x27] @ ''> -> //host/x'']\<rparr>)
   \<and> data_full_step site_env ''/site'' [(''data-full'', ''HTTP://host/x'')] st0 =
     ([(''data-full'', ''HTTP://host/x'')], st0)"
  using
    prefix_tests_are_exact
      [where v = "''HTTP://host/x''" and img = "[(''src'', ''HTTP://host/x'')]"
         and e = site_env and base_dir = "''/site''" and st = st0]
    prefix_tests_are_exact
      [where v = "''//host/x''" and img = "[(''src'', ''//host/x'')]"
         and e = site_env and base_dir = "''/site''" and st = st0]
    prefix_tests_are_exact
      [where v = "''HTTP://host/x''" and img = "[(''data-full'', ''HTTP://host/x'')]"
         and e = site_env and base_dir = "''/site''" and st = st0]
  by (simp add: site_facts st0_def Let_def)

text \<open>
  C10. Each \<open>img\<close> element changes the counters in exactly one of three ways: not at
  all, \<open>changed\<close> plus 1, or \<open>skipped\<close> plus 1. At the end of the loop, which starts
  with both counters 0, both are non-negative and their sum is at most the number of
  \<open>img\<close> elements.
\<close>

theorem counters_bounded_by_img_count:
  "((changed (snd (process_img e base_dir img st)) = changed st \<and>
     skipped (snd (process_img e base_dir img st)) = skipped st)
    \<or> (changed (snd (process_img e base_dir img st)) = changed st + 1 \<and>
     skipped (snd (process_img e base_dir img st)) = skipped st)
    \<or> (changed (snd (process_img e base_dir img st)) = changed st \<and>
     skipped (snd (process_img e base_dir img st)) = skipped st + 1))
   \<and> 0 \<le> changed (snd (process_imgs e base_dir imgs \<lparr>changed = 0, skipped = 0, printed = []\<rparr>))
   \<and> 0 \<le> skipped (snd (process_imgs e base_dir imgs \<lparr>changed = 0, skipped = 0, printed = []\<rparr>))
   \<and> changed (snd (process_imgs e base_dir imgs \<lparr>changed = 0, skipped = 0, printed = []\<rparr>))
       + skipped (snd (process_imgs e base_dir imgs \<lparr>changed = 0, skipped = 0, printed = []\<rparr>))
       \<le> int (length imgs)"
  using process_img_counters [of e base_dir img st]
    process_imgs_counters [of "\<lparr>changed = 0, skipped = 0, printed = []\<rparr>" e base_dir imgs]
  by simp


theorem counters_bounded_by_img_count_witness:
  "changed (snd (process_imgs site_env ''/site'' page_imgs
      \<lparr>changed = 0, skipped = 0, printed = []\<rparr>)) = 1
   \<and> skipped (snd (process_imgs site_env ''/site'' page_imgs
      \<lparr>changed = 0, skipped = 0, printed = []\<rparr>)) = 3
   \<and> (1::int) + 3 \<le> int (length page_imgs)"
  using counters_bounded_by_img_count
    [where e = site_env and base_dir = "''/site''" and imgs = page_imgs
       and img = "[(''src'', ''logo.png'')]" and st = st0]
  by (simp add: page_imgs_def process_img_def get_src_def inline_src_def data_full_step_def
      get_data_full_def site_facts Let_def)

text \<open>
  C1, as amended. The \<open>data-full\<close> lines run for an element whose \<open>src\<close> reached
  the attempt to inline it (a local reference to an existing path), whether that
  attempt succeeded or raised, on the element as the attempt left it, whose
  \<open>data-full\<close> is still the original one. An element whose \<open>src\<close> is absent, empty
  or starts with \<open>data:\<close> is skipped as a whole, its \<open>data-full\<close> included. Where
  the lines run on a \<open>data-full\<close> that is not empty, does not start with \<open>http://\<close>,
  \<open>https://\<close> or \<open>data:\<close> and names an existing readable file, they replace it by
  the data URI. They never change \<open>changed\<close> or \<open>skipped\<close>.
\<close>

theorem data_full_runs_after_inline_attempt:
  "(get_src img \<noteq> [] \<and> \<not> prefix ''data:'' (get_src img)
      \<and> \<not> prefix ''http://'' (get_src img) \<and> \<not> prefix ''https://'' (get_src img)
      \<and> path_exists e (path_normpath e (path_join e base_dir (get_src img))) \<longrightarrow>
      process_img e base_dir img st =
        data_full_step e base_dir
          (fst (inline_src e (path_normpath e (path_join e base_dir (get_src img))) img st))
          (snd (inline_src e (path_normpath e (path_join e base_dir (get_src img))) img st))
      \<and> get_data_full
            (fst (inline_src e (path_normpath e (path_join e base_dir (get_src img))) img st))
          = get_data_full img)
   \<and> (get_src img = [] \<or> prefix ''data:'' (get_src img) \<longrightarrow>
        process_img e base_dir img st = (img, st))
   \<and> (get_data_full img = Some v \<and> v \<noteq> [] \<and> \<not> prefix ''data:'' v
        \<and> \<not> prefix ''http://'' v \<and> \<not> prefix ''https://'' v
        \<and> path_exists e (path_normpath e (path_join e base_dir v))
        \<and> to_data_uri e (path_normpath e (path_join e base_dir v)) = Inr uri \<longrightarrow>
        data_full_step e base_dir img st = (AList.update ''data-full'' uri img, st))
   \<and> changed (snd (data_full_step e base_dir img st)) = changed st
   \<and> skipped (snd (data_full_step e base_dir img st)) = skipped st"
proof (intro conjI impI)
  assume "get_src img \<noteq> [] \<and> \<not> prefix ''data:'' (get_src img)
      \<and> \<not> prefix ''http://'' (get_src img) \<and> \<not> prefix ''https://'' (get_src img)
      \<and> path_exists e (path_normpath e (path_join e base_dir (get_src img)))"
  then show "process_img e base_dir img st =
        data_full_step e base_dir
          (fst (inline_src e (path_normpath e (path_join e base_dir (get_src img))) img st))
          (snd (inline_src e (path_normpath e (path_join e base_dir (get_src img))) img st))"
    by (simp add: process_img_local Let_def)
next
  show "get_data_full
            (fst (inline_src e (path_normpath e (path_join e base_dir (get_src img))) img st))
          = get_data_full img"
    by (rule inline_src_data_full)
next
  assume "get_src img = [] \<or> prefix ''data:'' (get_src img)"
  then show "process_img e base_dir img st = (img, st)"
    by (rule process_img_excluded)
next
  assume "get_data_full img = Some v \<and> v \<noteq> [] \<and> \<not> prefix ''data:'' v
        \<and> \<not> prefix ''http://'' v \<and> \<not> prefix ''https://'' v
        \<and> path_exists e (path_normpath e (path_join e base_dir v))
        \<and> to_data_uri e (path_normpath e (path_join e base_dir v)) = Inr uri"
  then show "data_full_step e base_dir img st = (AList.update ''data-full'' uri img, st)"
    by (simp add: data_full_step_local Let_def)
next
  show "changed (snd (data_full_step e base_dir img st)) = changed st"
    by (rule data_full_step_counters)
next
  show "skipped (snd (data_full_step e base_dir img st)) = skipped st"
    by (rule data_full_step_counters)
qed

theorem data_full_runs_after_inline_attempt_witness:
  "process_img site_env ''/site'' [(''src'', ''logo.png''), (''data-full'', ''full.jpg'')] st0 =
     ([(''src'', ''data:image/png;base64,iVBORw0KGgoAAA==''),
       (''data-full'', ''data:image/jpeg;base64,/9j/4AAQSkY='')],
      \<lparr>changed = 1, skipped = 0, printed = []\<rparr>)
   \<and> data_full_step site_env ''/site''
        [(''src'', ''data:image/png;base64,iVBORw0KGgoAAA==''), (''data-full'', ''full.jpg'')]
        \<lparr>changed = 1, skipped = 0, printed = []\<rparr> =
     ([(''src'', ''data:image/png;base64,iVBORw0KGgoAAA==''),
       (''data-full'', ''data:image/jpeg;base64,/9j/4AAQSkY='')],
      \<lparr>changed = 1, skipped = 0, printed = []\<rparr>)
   \<and> process_img site_env ''/site''
        [(''src'', ''data:image/gif;base64,AAAA''), (''data-full'', ''full.jpg'')] st0 =
     ([(''src'', ''data:image/gif;base64,AAAA''), (''data-full'', ''full.jpg'')], st0)"
  using
    data_full_runs_after_inline_attempt
      [where img = "[(''src'', ''logo.png''), (''data-full'', ''full.jpg'')]"
         and e = site_env and base_dir = "''/site''" and st = st0]
    data_full_runs_after_inline_attempt
      [where img = "[(''src'', ''data:image/png;base64,iVBORw0KGgoAAA==''),
                     (''data-full'', ''full.jpg'')]"
         and v = "''full.jpg''" and uri = "''data:image/jpeg;base64,/9j/4AAQSkY=''"
         and e = site_env and base_dir = "''/site''"
         and st = "\<lparr>changed = 1, skipped = 0, printed = []\<rparr>"]
    data_full_runs_after_inline_attempt
      [where img = "[(''src'', ''data:image/gif;base64,AAAA''), (''data-full'', ''full.jpg'')]"
         and e = site_env and base_dir = "''/site''" and st = st0]
  by (simp add: get_src_def get_data_full_def site_facts inline_src_def st0_def)

text \<open>
  C1 as stated fails on an element without \<open>src\<close> that carries a local
  \<open>data-full\<close>: the \<open>data-full\<close> lines would inline \<open>full.jpg\<close>, but the loop
  body leaves the element at its first \<open>continue\<close> and the attribute stays.
\<close>

theorem data_full_not_reached_counterexample:
  "map_of [(''alt'', ''no source''), (''data-full'', ''full.jpg'')] ''data-full'' = Some ''full.jpg''
   \<and> \<not> prefix ''http://'' ''full.jpg'' \<and> \<not> prefix ''https://'' ''full.jpg''
   \<and> \<not> prefix ''data:'' ''full.jpg''
   \<and> data_full_step site_env ''/site''
         [(''alt'', ''no source''), (''data-full'', ''full.jpg'')] st0 =
       ([(''alt'', ''no source''), (''data-full'', ''data:image/jpeg;base64,/9j/4AAQSkY='')], st0)
   \<and> process_img site_env ''/site''
         [(''alt'', ''no source''), (''data-full'', ''full.jpg'')] st0 =
       ([(''alt'', ''no source''), (''data-full'', ''full.jpg'')], st0)"
  by (simp add: process_img_def data_full_step_def get_src_def get_data_full_def site_facts)

end
